theory Spec2Isabelle
  imports Main "HOL-Library.Multiset"
begin

section \<open>Strings and POSIX paths\<close>

text \<open>
  The module works on JavaScript strings and on the POSIX flavour of Node's
  \<^verbatim>\<open>node:path\<close>.  Strings are \<^typ>\<open>string\<close>; the path functions are
  written out from their documented behaviour on \<^verbatim>\<open>/\<close>-separated paths.
\<close>

text \<open>\<^verbatim>\<open>String.prototype.endsWith\<close>.\<close>

definition endsWith :: "string \<Rightarrow> string \<Rightarrow> bool" where
  "endsWith s suf = (length suf \<le> length s \<and> drop (length s - length suf) s = suf)"

text \<open>\<^verbatim>\<open>String.prototype.split\<close> with a one-character separator: never empty.\<close>

fun splitOn :: "char \<Rightarrow> string \<Rightarrow> string list" where
  "splitOn c [] = [[]]"
| "splitOn c (x # xs) =
     (if x = c then [] # splitOn c xs
      else (case splitOn c xs of
              [] \<Rightarrow> [[x]]
            | s # ss \<Rightarrow> (x # s) # ss))"

text \<open>\<^verbatim>\<open>Array.prototype.join\<close> on strings.\<close>

fun joinWith :: "string \<Rightarrow> string list \<Rightarrow> string" where
  "joinWith sep [] = []"
| "joinWith sep [s] = s"
| "joinWith sep (s # t # ss) = s @ sep @ joinWith sep (t # ss)"

definition isAbsolute :: "string \<Rightarrow> bool" where
  "isAbsolute p = (case p of [] \<Rightarrow> False | c # _ \<Rightarrow> c = CHR ''/'')"

text \<open>
  Node's \<^verbatim>\<open>normalizeString\<close>, segment by segment: empty and \<^verbatim>\<open>.\<close>
  segments vanish, \<^verbatim>\<open>..\<close> removes the segment before it, and is kept only
  above the start of a relative path.  The accumulator holds the result reversed.
\<close>

fun normalizeSegments :: "bool \<Rightarrow> string list \<Rightarrow> string list \<Rightarrow> string list" where
  "normalizeSegments allowAboveRoot acc [] = rev acc"
| "normalizeSegments allowAboveRoot acc (s # ss) =
     (if s = [] \<or> s = ''.'' then normalizeSegments allowAboveRoot acc ss
      else if s = ''..'' then
        (case acc of
           [] \<Rightarrow> normalizeSegments allowAboveRoot (if allowAboveRoot then [''..''] else []) ss
         | a # as \<Rightarrow>
             if a = ''..''
             then normalizeSegments allowAboveRoot (if allowAboveRoot then ''..'' # acc else acc) ss
             else normalizeSegments allowAboveRoot as ss)
      else normalizeSegments allowAboveRoot (s # acc) ss)"

definition normalizeString :: "string \<Rightarrow> bool \<Rightarrow> string" where
  "normalizeString p allowAboveRoot =
     joinWith ''/'' (normalizeSegments allowAboveRoot [] (splitOn (CHR ''/'') p))"

text \<open>\<^verbatim>\<open>path.normalize\<close>.\<close>

definition normalize :: "string \<Rightarrow> string" where
  "normalize p =
     (if p = [] then ''.''
      else
        let trailingSeparator = (last p = CHR ''/'');
            q = normalizeString p (\<not> isAbsolute p)
        in if q = [] then (if isAbsolute p then ''/'' else if trailingSeparator then ''./'' else ''.'')
           else (if isAbsolute p then ''/'' else []) @ q @ (if trailingSeparator then ''/'' else []))"

text \<open>\<^verbatim>\<open>path.join\<close>: the non-empty arguments joined by \<^verbatim>\<open>/\<close>, normalized.\<close>

definition join :: "string list \<Rightarrow> string" where
  "join args =
     (let parts = filter (\<lambda>a. a \<noteq> []) args
      in if parts = [] then ''.'' else normalize (joinWith ''/'' parts))"

text \<open>
  \<^verbatim>\<open>path.resolve\<close>: the arguments are taken from the right until an absolute
  one is met; the working directory \<open>cwd\<close> (\<^verbatim>\<open>process.cwd()\<close>) stands to the
  left of them all.
\<close>

fun resolveLoop :: "string list \<Rightarrow> string \<Rightarrow> string \<times> bool" where
  "resolveLoop [] resolvedPath = (resolvedPath, False)"
| "resolveLoop (p # ps) resolvedPath =
     (if p = [] then resolveLoop ps resolvedPath
      else if isAbsolute p then (p @ ''/'' @ resolvedPath, True)
      else resolveLoop ps (p @ ''/'' @ resolvedPath))"

definition resolve :: "string \<Rightarrow> string list \<Rightarrow> string" where
  "resolve cwd args =
     (case resolveLoop (rev (cwd # args)) [] of
        (resolvedPath, resolvedAbsolute) \<Rightarrow>
          let q = normalizeString resolvedPath (\<not> resolvedAbsolute)
          in if resolvedAbsolute then ''/'' @ q
             else if q \<noteq> [] then q else ''.'')"

text \<open>\<^verbatim>\<open>path.basename\<close>: the last segment, trailing separators ignored.\<close>

definition basename :: "string \<Rightarrow> string" where
  "basename p =
     (case rev (filter (\<lambda>s. s \<noteq> []) (splitOn (CHR ''/'') p)) of
        [] \<Rightarrow> []
      | b # _ \<Rightarrow> b)"

text \<open>
  \<^verbatim>\<open>path.extname\<close>: from the last dot of the last segment to its end; empty when
  the segment has no dot, starts with its only dot, or is \<^verbatim>\<open>..\<close>.
\<close>

definition extname :: "string \<Rightarrow> string" where
  "extname p =
     (let b = basename p;
          e = takeWhile (\<lambda>c. c \<noteq> CHR ''.'') (rev b)
      in if CHR ''.'' \<notin> set b then []
         else if length e + 1 = length b then []
         else if b = ''..'' then []
         else CHR ''.'' # rev e)"

text \<open>
  \<^verbatim>\<open>path.basename(path, suffix)\<close>, as the module calls it: the suffix is
  \<^verbatim>\<open>extname\<close> of the same name, so it is empty or a proper ending of the
  last segment, which loses it.
\<close>

definition basenameExt :: "string \<Rightarrow> string \<Rightarrow> string" where
  "basenameExt p ext =
     (let b = basename p
      in if ext \<noteq> [] \<and> p = ext then []
         else if ext \<noteq> [] \<and> endsWith b ext \<and> b \<noteq> ext then take (length b - length ext) b
         else b)"

text \<open>
  \<^verbatim>\<open>path.relative\<close>: both paths resolved, their common leading segments
  dropped, one \<^verbatim>\<open>..\<close> for each segment left of \<open>from\<close>.
\<close>

fun dropCommon :: "string list \<Rightarrow> string list \<Rightarrow> string list \<times> string list" where
  "dropCommon (x # xs) (y # ys) = (if x = y then dropCommon xs ys else (x # xs, y # ys))"
| "dropCommon xs ys = (xs, ys)"

definition segments :: "string \<Rightarrow> string list" where
  "segments p = filter (\<lambda>s. s \<noteq> []) (splitOn (CHR ''/'') p)"

definition relative :: "string \<Rightarrow> string \<Rightarrow> string \<Rightarrow> string" where
  "relative cwd from to =
     (if from = to then []
      else case dropCommon (segments (resolve cwd [from])) (segments (resolve cwd [to])) of
             (up, down) \<Rightarrow> joinWith ''/'' (replicate (length up) ''..'' @ down))"

section \<open>Entrypoints (filesystem.ts)\<close>

text \<open>The closed set of entrypoint kinds the classifier returns.\<close>

datatype EntrypointType =
    Background | ContentScript | Popup | Options | Newtab | Devtools | Bookmarks
  | History | Sidepanel | Sandbox | UnlistedPage | UnlistedScript | UnlistedStyle

record EntrypointInfo =
  name :: string
  inputPath :: string
  type :: EntrypointType

text \<open>\<^verbatim>\<open>determineEntrypointType\<close>, branch for branch.\<close>

definition determineEntrypointType :: "string \<Rightarrow> string \<Rightarrow> EntrypointType" where
  "determineEntrypointType nm ext =
     (if ext \<in> set [''.css'', ''.scss'', ''.sass'', ''.less'', ''.styl'', ''.stylus'']
      then UnlistedStyle
      else if ext = ''.html'' then
        (if nm = ''popup'' then Popup
         else if nm = ''options'' then Options
         else if nm = ''newtab'' then Newtab
         else if nm = ''devtools'' then Devtools
         else if nm = ''bookmarks'' then Bookmarks
         else if nm = ''history'' then History
         else if endsWith nm ''.sidepanel'' \<or> nm = ''sidepanel'' then Sidepanel
         else if endsWith nm ''.sandbox'' \<or> nm = ''sandbox'' then Sandbox
         else UnlistedPage)
      else if nm = ''background'' then Background
      else if endsWith nm ''.content'' \<or> nm = ''content'' then ContentScript
      else UnlistedScript)"

text \<open>
  The file system the module reads, as a map from paths to nodes: a path without a
  node does not exist, and a directory carries the names \<^verbatim>\<open>readdirSync\<close> lists.
  \<^verbatim>\<open>statSync\<close> and \<^verbatim>\<open>readdirSync\<close> throw where Node does.
\<close>

datatype FsNode = File | Dir "string list"

type_synonym FileSystem = "string \<Rightarrow> FsNode option"

datatype FsError = ENOENT string | ENOTDIR string

definition existsSync :: "FileSystem \<Rightarrow> string \<Rightarrow> bool" where
  "existsSync fs p = (fs p \<noteq> None)"

definition readdirSync :: "FileSystem \<Rightarrow> string \<Rightarrow> FsError + string list" where
  "readdirSync fs p =
     (case fs p of
        None \<Rightarrow> Inl (ENOENT p)
      | Some File \<Rightarrow> Inl (ENOTDIR p)
      | Some (Dir entries) \<Rightarrow> Inr entries)"

definition statIsDirectory :: "FileSystem \<Rightarrow> string \<Rightarrow> FsError + bool" where
  "statIsDirectory fs p =
     (case fs p of
        None \<Rightarrow> Inl (ENOENT p)
      | Some File \<Rightarrow> Inr False
      | Some (Dir entries) \<Rightarrow> Inr True)"

text \<open>
  The names the regular expression
  \<^verbatim>\<open>/^(index)\.(ts|tsx|js|jsx|html|css|scss|sass|less)$/\<close> accepts.
\<close>

definition isIndexFile :: "string \<Rightarrow> bool" where
  "isIndexFile entry =
     (entry \<in> set [''index.ts'', ''index.tsx'', ''index.js'', ''index.jsx'', ''index.html'',
                   ''index.css'', ''index.scss'', ''index.sass'', ''index.less''])"

text \<open>
  One round of the loop of \<^verbatim>\<open>scanLayerEntrypoints\<close>: the pair
  \<open>(inputPath, name)\<close> it computes for a directory entry, both empty for a
  directory without an index file.
\<close>

definition scanEntry :: "FileSystem \<Rightarrow> string \<Rightarrow> string \<Rightarrow> FsError + (string \<times> string)" where
  "scanEntry fs entrypointsDir entry =
     (let fullPath = join [entrypointsDir, entry]
      in case statIsDirectory fs fullPath of
           Inl err \<Rightarrow> Inl err
         | Inr True \<Rightarrow>
             (case readdirSync fs fullPath of
                Inl err \<Rightarrow> Inl err
              | Inr entries \<Rightarrow>
                  (case find isIndexFile entries of
                     Some indexFile \<Rightarrow> Inr (join [fullPath, indexFile], entry)
                   | None \<Rightarrow> Inr ([], [])))
         | Inr False \<Rightarrow>
             Inr (join [entrypointsDir, entry], basenameExt entry (extname entry)))"

fun scanEntries ::
  "FileSystem \<Rightarrow> string \<Rightarrow> string list \<Rightarrow> EntrypointInfo list \<Rightarrow> FsError + EntrypointInfo list"
where
  "scanEntries fs entrypointsDir [] entrypoints = Inr entrypoints"
| "scanEntries fs entrypointsDir (entry # entries) entrypoints =
     (case scanEntry fs entrypointsDir entry of
        Inl err \<Rightarrow> Inl err
      | Inr (inPath, nm) \<Rightarrow>
          if inPath \<noteq> [] \<and> nm \<noteq> []
          then scanEntries fs entrypointsDir entries
                 (entrypoints @
                   [\<lparr>name = nm, inputPath = inPath,
                     type = determineEntrypointType nm (extname inPath)\<rparr>])
          else scanEntries fs entrypointsDir entries entrypoints)"

definition scanLayerEntrypoints :: "FileSystem \<Rightarrow> string \<Rightarrow> FsError + EntrypointInfo list" where
  "scanLayerEntrypoints fs layerPath =
     (let entrypointsDir = join [layerPath, ''entrypoints'']
      in if \<not> existsSync fs entrypointsDir then Inr []
         else case readdirSync fs entrypointsDir of
                Inl err \<Rightarrow> Inl err
              | Inr entries \<Rightarrow> scanEntries fs entrypointsDir entries [])"

text \<open>
  \<^verbatim>\<open>const [name] = key.split('.')\<close>: the part of the key before its first
  dot (\<^const>\<open>splitOn\<close> never returns the empty list).
\<close>

definition firstPart :: "string \<Rightarrow> string" where
  "firstPart key = (case splitOn (CHR ''.'') key of [] \<Rightarrow> [] | n # _ \<Rightarrow> n)"

text \<open>
  \<^verbatim>\<open>resolveEntrypoints\<close>: the loop over \<^verbatim>\<open>Object.entries(config)\<close>.  A value of
  the partial record is a path or undefined.
\<close>

type_synonym LayerEntrypoints = "(string \<times> string option) list"

fun resolveEntrypointsLoop ::
  "string \<Rightarrow> FileSystem \<Rightarrow> LayerEntrypoints \<Rightarrow> string \<Rightarrow> EntrypointInfo list \<Rightarrow> EntrypointInfo list"
where
  "resolveEntrypointsLoop cwd fs [] layerPath entrypoints = entrypoints"
| "resolveEntrypointsLoop cwd fs ((key, None) # config) layerPath entrypoints =
     resolveEntrypointsLoop cwd fs config layerPath entrypoints"
| "resolveEntrypointsLoop cwd fs ((key, Some p) # config) layerPath entrypoints =
     (if p = [] then resolveEntrypointsLoop cwd fs config layerPath entrypoints
      else
        let inPath = resolve cwd [layerPath, p]
        in if existsSync fs inPath
           then resolveEntrypointsLoop cwd fs config layerPath
                  (entrypoints @
                    [\<lparr>name = firstPart key, inputPath = inPath,
                      type = determineEntrypointType key (extname inPath)\<rparr>])
           else resolveEntrypointsLoop cwd fs config layerPath entrypoints)"

definition resolveEntrypoints ::
  "string \<Rightarrow> FileSystem \<Rightarrow> LayerEntrypoints \<Rightarrow> string \<Rightarrow> EntrypointInfo list"
where
  "resolveEntrypoints cwd fs config layerPath = resolveEntrypointsLoop cwd fs config layerPath []"

text \<open>\<^verbatim>\<open>resolveLayerAutoImportDirs\<close>: the folders of the layer that exist.\<close>

fun resolveLayerAutoImportDirsLoop ::
  "FileSystem \<Rightarrow> string \<Rightarrow> string list \<Rightarrow> string list \<Rightarrow> string list"
where
  "resolveLayerAutoImportDirsLoop fs layerPath [] existingDirs = existingDirs"
| "resolveLayerAutoImportDirsLoop fs layerPath (dir # dirs) existingDirs =
     (let dirPath = join [layerPath, dir]
      in if existsSync fs dirPath
         then resolveLayerAutoImportDirsLoop fs layerPath dirs (existingDirs @ [dirPath])
         else resolveLayerAutoImportDirsLoop fs layerPath dirs existingDirs)"

definition resolveLayerAutoImportDirs :: "FileSystem \<Rightarrow> string \<Rightarrow> string list \<Rightarrow> string list" where
  "resolveLayerAutoImportDirs fs layerPath dirs = resolveLayerAutoImportDirsLoop fs layerPath dirs []"

text \<open>
  The option interfaces of \<^verbatim>\<open>types.ts\<close>; an optional property is an
  \<^typ>\<open>'a option\<close>.  The manifest callback of a layer takes no part in what
  follows and is left out.
\<close>

record LayersCommonOptions =
  layerAlias :: "string option"
  autoImports :: "string list option"
  entrypoints :: "LayerEntrypoints option"
  publicPrefix :: "string option"

record LayerOptions = LayersCommonOptions +
  order :: "int option"

record SourceOptions = LayersCommonOptions +
  source :: string
  sourceAlias :: "string option"

text \<open>A declared source is a bare pattern or an options object.\<close>

datatype SourceInput = SourceString string | SourceObject SourceOptions

text \<open>\<^verbatim>\<open>toArray\<close> of the utilities: a single value becomes a one-element array.\<close>

datatype 'a OneOrMany = One 'a | Many "'a list"

fun toArray :: "'a OneOrMany \<Rightarrow> 'a list" where
  "toArray (One v) = [v]"
| "toArray (Many vs) = vs"

text \<open>
  \<^verbatim>\<open>resolveSources\<close>: \<open>None\<close> is an undefined \<^verbatim>\<open>sources\<close> option.
\<close>

definition resolveSources ::
  "string \<Rightarrow> string \<Rightarrow> SourceInput OneOrMany option \<Rightarrow> SourceOptions list"
where
  "resolveSources cwd rootDir sources =
     map (\<lambda>input.
            input\<lparr>sourceAlias := Some (case sourceAlias input of None \<Rightarrow> ''#{name}'' | Some a \<Rightarrow> a),
                  source := resolve cwd [rootDir, source input]\<rparr>)
       (map (\<lambda>input.
               case input of
                 SourceString str \<Rightarrow>
                   \<lparr>layerAlias = None, autoImports = None, entrypoints = None, publicPrefix = None,
                    source = str, sourceAlias = None\<rparr>
               | SourceObject obj \<Rightarrow> obj)
          (toArray (case sources of None \<Rightarrow> One (SourceString ''layers/*'') | Some v \<Rightarrow> v)))"

section \<open>The module (module.ts)\<close>

text \<open>
  \<^verbatim>\<open>interpolateLayerName\<close> is \<^verbatim>\<open>template.replace(/\{name}/g, layerName)\<close>.
  JavaScript expands \<^verbatim>\<open>$$\<close>, \<^verbatim>\<open>$&\<close>, \<^verbatim>\<open>$`\<close> and \<^verbatim>\<open>$'\<close> in the replacement;
  the expression has no capture group, so \<^verbatim>\<open>$1\<close> and the like stay as they are.
\<close>

fun expandReplacement :: "string \<Rightarrow> string \<Rightarrow> string \<Rightarrow> string \<Rightarrow> string" where
  "expandReplacement (c # d # r) matched pre post =
     (if c = CHR ''$'' \<and> d = CHR ''$'' then CHR ''$'' # expandReplacement r matched pre post
      else if c = CHR ''$'' \<and> d = CHR ''&'' then matched @ expandReplacement r matched pre post
      else if c = CHR ''$'' \<and> d = CHR 0x60 then pre @ expandReplacement r matched pre post
      else if c = CHR ''$'' \<and> d = CHR 0x27 then post @ expandReplacement r matched pre post
      else c # expandReplacement (d # r) matched pre post)"
| "expandReplacement r matched pre post = r"

fun replaceName :: "string \<Rightarrow> string \<Rightarrow> string \<Rightarrow> string" where
  "replaceName pre [] replacement = []"
| "replaceName pre (c # cs) replacement =
     (if take 6 (c # cs) = ''{name}''
      then expandReplacement replacement ''{name}'' pre (drop 5 cs)
             @ replaceName (pre @ ''{name}'') (drop 5 cs) replacement
      else c # replaceName (pre @ [c]) cs replacement)"

definition interpolateLayerName :: "string \<Rightarrow> string \<Rightarrow> string" where
  "interpolateLayerName template layerName = replaceName [] template layerName"

text \<open>
  The table \<^verbatim>\<open>wxt.config.alias\<close> is a plain object, here the map of its own
  properties (\<open>None\<close> for the whole table: undefined).  Reading a key that is not
  an own property finds the members every object inherits from
  \<^verbatim>\<open>Object.prototype\<close>, all of them truthy.
\<close>

type_synonym AliasTable = "string \<rightharpoonup> string"

definition objectPrototypeKeys :: "string list" where
  "objectPrototypeKeys =
     [''constructor'', ''__defineGetter__'', ''__defineSetter__'', ''hasOwnProperty'',
      ''__lookupGetter__'', ''__lookupSetter__'', ''isPrototypeOf'', ''propertyIsEnumerable'',
      ''toString'', ''valueOf'', ''__proto__'', ''toLocaleString'']"

text \<open>The truth value of \<^verbatim>\<open>wxt.config.alias[key]\<close>: an empty string is falsy.\<close>

definition aliasDefined :: "AliasTable \<Rightarrow> string \<Rightarrow> bool" where
  "aliasDefined table key =
     (case table key of
        Some p \<Rightarrow> p \<noteq> []
      | None \<Rightarrow> key \<in> set objectPrototypeKeys)"

text \<open>\<^verbatim>\<open>setAlias\<close>, returning the table it leaves in \<^verbatim>\<open>wxt.config.alias\<close>.\<close>

definition setAlias :: "AliasTable option \<Rightarrow> string \<Rightarrow> string option \<Rightarrow> AliasTable option" where
  "setAlias configAlias p alias =
     (case alias of
        None \<Rightarrow> configAlias
      | Some template \<Rightarrow>
          if template = [] then configAlias
          else
            let key = interpolateLayerName template (basename p);
                table = (case configAlias of None \<Rightarrow> Map.empty | Some t \<Rightarrow> t)
            in if aliasDefined table key then Some table
               else Some (table(key \<mapsto> p)))"

text \<open>
  \<^verbatim>\<open>String.prototype.replace\<close> with the pattern \<^verbatim>\<open>'/*'\<close> and the empty
  replacement: the first occurrence goes.
\<close>

fun removeFirstWildcard :: "string \<Rightarrow> string" where
  "removeFirstWildcard [] = []"
| "removeFirstWildcard (c # cs) =
     (if take 2 (c # cs) = ''/*'' then drop 1 cs else c # removeFirstWildcard cs)"

text \<open>The loop over the sources that registers their aliases.\<close>

fun registerSourceAliases :: "AliasTable option \<Rightarrow> SourceOptions list \<Rightarrow> AliasTable option" where
  "registerSourceAliases configAlias [] = configAlias"
| "registerSourceAliases configAlias (src # layerSources) =
     registerSourceAliases
       (case sourceAlias src of
          None \<Rightarrow> configAlias
        | Some a \<Rightarrow> if a = [] then configAlias
                    else setAlias configAlias (removeFirstWildcard (source src)) (sourceAlias src))
       layerSources"

text \<open>What the loop over the layers collects.\<close>

record LayerEntrypointInfo =
  order :: int
  layerName :: string
  entrypointName :: string
  info :: EntrypointInfo

record SetupState =
  configAlias :: "AliasTable option"
  allAutoImportPaths :: "string list"
  allEntrypoints :: "LayerEntrypointInfo list"

fun collectEntrypoints ::
  "string \<Rightarrow> LayerOptions \<Rightarrow> EntrypointInfo list \<Rightarrow> LayerEntrypointInfo list \<Rightarrow> LayerEntrypointInfo list"
where
  "collectEntrypoints lname layerOptions [] collected = collected"
| "collectEntrypoints lname layerOptions (entrypoint # layerEntrypoints) collected =
     collectEntrypoints lname layerOptions layerEntrypoints
       (collected @
         [\<lparr>order = (case LayerOptions.order layerOptions of None \<Rightarrow> 100 | Some n \<Rightarrow> n),
           layerName = lname,
           entrypointName = name entrypoint,
           info = entrypoint\<rparr>])"

text \<open>
  One round of the loop over the resolved layers: the layer's alias, its entrypoints
  (declared ones when the options hold an \<^verbatim>\<open>entrypoints\<close> object, scanned ones
  otherwise) and its auto-import folders.  The hooks the loop registers for public
  files and the manifest are not modelled.
\<close>

definition processLayer ::
  "string \<Rightarrow> FileSystem \<Rightarrow> SetupState \<Rightarrow> string \<Rightarrow> LayerOptions \<Rightarrow> FsError + SetupState"
where
  "processLayer cwd fs st layerPath layerOptions =
     (let lname = basename layerPath;
          table = setAlias (configAlias st) layerPath (layerAlias layerOptions)
      in case (case entrypoints layerOptions of
                 Some config \<Rightarrow> Inr (resolveEntrypoints cwd fs config layerPath)
               | None \<Rightarrow> scanLayerEntrypoints fs layerPath) of
           Inl err \<Rightarrow> Inl err
         | Inr layerEntrypoints \<Rightarrow>
             Inr \<lparr>configAlias = table,
                  allAutoImportPaths =
                    allAutoImportPaths st @
                      resolveLayerAutoImportDirs fs layerPath
                        (case autoImports layerOptions of None \<Rightarrow> [] | Some dirs \<Rightarrow> dirs),
                  allEntrypoints =
                    collectEntrypoints lname layerOptions layerEntrypoints (allEntrypoints st)\<rparr>)"

fun processLayers ::
  "string \<Rightarrow> FileSystem \<Rightarrow> SetupState \<Rightarrow> (string \<times> LayerOptions) list \<Rightarrow> FsError + SetupState"
where
  "processLayers cwd fs st [] = Inr st"
| "processLayers cwd fs st ((layerPath, layerOptions) # resolvedLayers) =
     (case processLayer cwd fs st layerPath layerOptions of
        Inl err \<Rightarrow> Inl err
      | Inr st' \<Rightarrow> processLayers cwd fs st' resolvedLayers)"

subsection \<open>The hook on found entrypoints\<close>

definition MODULE_NAME :: string where
  "MODULE_NAME = ''wxt-module-layers:background''"

text \<open>The loop that holds the layer backgrounds back and adds the other entrypoints.\<close>

fun addLayerEntrypoints ::
  "LayerEntrypointInfo list \<Rightarrow> EntrypointInfo list \<Rightarrow> LayerEntrypointInfo list
     \<Rightarrow> EntrypointInfo list \<times> LayerEntrypointInfo list"
where
  "addLayerEntrypoints [] entrypointInfos layerBackgrounds = (entrypointInfos, layerBackgrounds)"
| "addLayerEntrypoints (entrypoint # rest) entrypointInfos layerBackgrounds =
     (if type (info entrypoint) = Background
      then addLayerEntrypoints rest entrypointInfos (layerBackgrounds @ [entrypoint])
      else addLayerEntrypoints rest (entrypointInfos @ [info entrypoint]) layerBackgrounds)"

text \<open>
  The hook: the entrypoint list it leaves to the host, and the layer backgrounds
  handed to the virtual module's plugin when one is created.
  \<^verbatim>\<open>Array.prototype.sort\<close> is stable, and so is \<^const>\<open>sort_key\<close>; orders
  are integers.
\<close>

definition entrypointsFound ::
  "EntrypointInfo list \<Rightarrow> LayerEntrypointInfo list
     \<Rightarrow> EntrypointInfo list \<times> LayerEntrypointInfo list option"
where
  "entrypointsFound hostInfos collected =
     (case addLayerEntrypoints collected hostInfos [] of
        (entrypointInfos, layerBackgrounds) \<Rightarrow>
          let existingBackground = find (\<lambda>e. type e = Background) entrypointInfos
          in if existingBackground = None \<and> layerBackgrounds \<noteq> []
             then (entrypointInfos @
                     [\<lparr>name = ''background'', inputPath = MODULE_NAME, type = Background\<rparr>],
                   Some (sort_key order layerBackgrounds))
             else (entrypointInfos, None))"

text \<open>
  The virtual module the plugin's \<^verbatim>\<open>load\<close> writes, as its import lines (handler and
  path) and the handler array of \<^verbatim>\<open>runAll\<close>.  A label is the layer name with
  every run of non-word characters (\<^verbatim>\<open>/\W+/g\<close>) turned into an underscore.
\<close>

definition isWordChar :: "char \<Rightarrow> bool" where
  "isWordChar c =
     (c \<in> set ''abcdefghijklmnopqrstuvwxyzABCDEFGHIJKLMNOPQRSTUVWXYZ0123456789_'')"

fun replaceNonWord :: "bool \<Rightarrow> string \<Rightarrow> string" where
  "replaceNonWord inRun [] = []"
| "replaceNonWord inRun (c # cs) =
     (if isWordChar c then c # replaceNonWord False cs
      else if inRun then replaceNonWord True cs
      else CHR ''_'' # replaceNonWord True cs)"

record VirtualModule =
  importLines :: "(string \<times> string) list"
  handlers :: "string list"

fun loadLoop :: "LayerEntrypointInfo list \<Rightarrow> VirtualModule \<Rightarrow> VirtualModule" where
  "loadLoop [] m = m"
| "loadLoop (entrypoint # rest) m =
     (let label = replaceNonWord False (layerName entrypoint);
          handler = ''init_'' @ label
      in loadLoop rest
           \<lparr>importLines = importLines m @ [(handler, inputPath (info entrypoint))],
            handlers = handlers m @ [handler]\<rparr>)"

definition load :: "LayerEntrypointInfo list \<Rightarrow> VirtualModule" where
  "load layerEntrypoints = loadLoop layerEntrypoints \<lparr>importLines = [], handlers = []\<rparr>"

text \<open>
  The virtual module as the module system runs it.  Each import line binds its
  identifier to the default export of the file at its path, which \<open>defaultExport\<close>
  gives as a function from the previous result to the handler's (awaited) result.  Two
  import lines that declare the same identifier are a syntax error: the module is
  rejected and no handler runs.  Otherwise \<^verbatim>\<open>runAll\<close> calls the handlers of its
  array one after the other, \<^verbatim>\<open>prevResult\<close> starting undefined.
\<close>

datatype ModuleError = DuplicateImport | UnboundHandler string

fun runAllLoop ::
  "(string \<rightharpoonup> ('v \<Rightarrow> 'v)) \<Rightarrow> string list \<Rightarrow> 'v \<Rightarrow> ModuleError + 'v"
where
  "runAllLoop bindings [] prevResult = Inr prevResult"
| "runAllLoop bindings (handler # rest) prevResult =
     (case bindings handler of
        None \<Rightarrow> Inl (UnboundHandler handler)
      | Some f \<Rightarrow> runAllLoop bindings rest (f prevResult))"

definition runAll ::
  "(string \<Rightarrow> 'v \<Rightarrow> 'v) \<Rightarrow> 'v \<Rightarrow> VirtualModule \<Rightarrow> ModuleError + 'v"
where
  "runAll defaultExport undefinedValue m =
     (if \<not> distinct (map fst (importLines m)) then Inl DuplicateImport
      else runAllLoop (\<lambda>handler. map_option defaultExport (map_of (importLines m) handler))
             (handlers m) undefinedValue)"

subsection \<open>The hook on the resolved configuration\<close>

record ImportsConfig =
  disabled :: bool
  dirs :: "string list option"

fun addImportDirs :: "string \<Rightarrow> string \<Rightarrow> string list \<Rightarrow> string list \<Rightarrow> string list" where
  "addImportDirs cwd srcDir [] importDirs = importDirs"
| "addImportDirs cwd srcDir (importPath # rest) importDirs =
     (if importPath \<notin> set importDirs
      then addImportDirs cwd srcDir rest (importDirs @ [relative cwd srcDir importPath])
      else addImportDirs cwd srcDir rest importDirs)"

definition configResolved :: "string \<Rightarrow> string \<Rightarrow> string list \<Rightarrow> ImportsConfig \<Rightarrow> ImportsConfig" where
  "configResolved cwd srcDir autoImportPaths importsConfig =
     (if autoImportPaths \<noteq> [] then
        (if disabled importsConfig then importsConfig
         else importsConfig
                \<lparr>dirs := Some (addImportDirs cwd srcDir autoImportPaths
                                 (case dirs importsConfig of None \<Rightarrow> [] | Some ds \<Rightarrow> ds))\<rparr>)
      else importsConfig)"

text \<open>Reading an own property of the alias table.\<close>

definition aliasLookup :: "AliasTable option \<Rightarrow> string \<Rightarrow> string option" where
  "aliasLookup current key = (case current of None \<Rightarrow> None | Some table \<Rightarrow> table key)"

section \<open>Merging objects (shallowMerge)\<close>

text \<open>
  The values an option can hold under the option interfaces: a string, a number, an
  array of strings, a map from names to strings, a callback, or undefined for a
  property that is present but unset.  An options object is the list of its own
  properties; the order of the list is the order \<^verbatim>\<open>Object.entries\<close> visits them
  in and does not matter otherwise.
\<close>

datatype OptionValue =
    JUndefined
  | JString string
  | JNumber int
  | JArray "string list"
  | JObject "(string \<times> string) list"
  | JFunction

type_synonym OptionsObject = "(string \<times> OptionValue) list"

text \<open>Reading \<^verbatim>\<open>target[key]\<close> (undefined when absent) and assigning to it.\<close>

definition getProperty :: "(string \<times> OptionValue) list \<Rightarrow> string \<Rightarrow> OptionValue" where
  "getProperty obj key = (case map_of obj key of None \<Rightarrow> JUndefined | Some v \<Rightarrow> v)"

fun setProperty :: "(string \<times> 'a) list \<Rightarrow> string \<Rightarrow> 'a \<Rightarrow> (string \<times> 'a) list" where
  "setProperty [] key v = [(key, v)]"
| "setProperty ((k, w) # obj) key v =
     (if k = key then (k, v) # obj else (k, w) # setProperty obj key v)"

text \<open>\<^verbatim>\<open>typeof v === 'object'\<close> and \<^verbatim>\<open>Array.isArray(v)\<close>.\<close>

definition typeofObject :: "OptionValue \<Rightarrow> bool" where
  "typeofObject v = (case v of JArray xs \<Rightarrow> True | JObject es \<Rightarrow> True | _ \<Rightarrow> False)"

definition isArray :: "OptionValue \<Rightarrow> bool" where
  "isArray v = (case v of JArray xs \<Rightarrow> True | _ \<Rightarrow> False)"

text \<open>
  The properties an object spread copies: those of an object, and the elements of an
  array under their indices in decimal.
\<close>

fun showNat :: "nat \<Rightarrow> string" where
  "showNat n =
     (if n < 10 then [char_of (48 + n)]
      else showNat (n div 10) @ [char_of (48 + n mod 10)])"

definition spreadEntries :: "OptionValue \<Rightarrow> (string \<times> string) list" where
  "spreadEntries v =
     (case v of
        JArray xs \<Rightarrow> zip (map showNat [0..<length xs]) xs
      | JObject es \<Rightarrow> es
      | _ \<Rightarrow> [])"

fun assignAll :: "(string \<times> 'a) list \<Rightarrow> (string \<times> 'a) list \<Rightarrow> (string \<times> 'a) list" where
  "assignAll obj [] = obj"
| "assignAll obj ((k, v) # es) = assignAll (setProperty obj k v) es"

text \<open>The three branches of the loop body of \<^verbatim>\<open>shallowMerge\<close>.\<close>

definition mergeValue :: "OptionValue \<Rightarrow> OptionValue \<Rightarrow> OptionValue" where
  "mergeValue targetValue v =
     (if isArray v \<and> isArray targetValue
      then (case (targetValue, v) of
              (JArray xs, JArray ys) \<Rightarrow> JArray (xs @ ys)
            | _ \<Rightarrow> v)
      else if typeofObject v \<and> typeofObject targetValue
      then JObject (assignAll (assignAll [] (spreadEntries targetValue)) (spreadEntries v))
      else v)"

text \<open>\<^verbatim>\<open>shallowMerge\<close>: the loop over the entries of the source, on the target.\<close>

fun shallowMerge :: "OptionsObject \<Rightarrow> OptionsObject \<Rightarrow> OptionsObject" where
  "shallowMerge target [] = target"
| "shallowMerge target ((key, v) # entries) =
     shallowMerge (setProperty target key (mergeValue (getProperty target key) v)) entries"

section \<open>The cascade of options\<close>













section \<open>Example inputs\<close>

text \<open>Example file systems and inputs the theorems below are evaluated at.\<close>

definition fsDuplicateNames :: FileSystem where
  "fsDuplicateNames =
     map_of
       [(''/proj/layers/a'', Dir [''entrypoints'']),
        (''/proj/layers/a/entrypoints'', Dir [''foo.ts'', ''foo.css'']),
        (''/proj/layers/a/entrypoints/foo.ts'', File),
        (''/proj/layers/a/entrypoints/foo.css'', File)]"

definition fsDemo :: FileSystem where
  "fsDemo =
     map_of
       [(''/proj/layers/demo'', Dir [''entrypoints'', ''content'', ''utils'']),
        (''/proj/layers/demo/utils'', Dir []),
        (''/proj/layers/demo/entrypoints'', Dir [''popup.html'', ''background.ts'', ''panel'', ''empty'']),
        (''/proj/layers/demo/entrypoints/popup.html'', File),
        (''/proj/layers/demo/entrypoints/background.ts'', File),
        (''/proj/layers/demo/entrypoints/panel'', Dir [''panel.ts'', ''index.html'']),
        (''/proj/layers/demo/entrypoints/panel/panel.ts'', File),
        (''/proj/layers/demo/entrypoints/panel/index.html'', File),
        (''/proj/layers/demo/entrypoints/empty'', Dir []),
        (''/proj/layers/demo/content'', Dir [''linkedin.ts'']),
        (''/proj/layers/demo/content/linkedin.ts'', File)]"

text \<open>
  A host with an options page only, and what the loop collects from four layers with
  backgrounds of order 10, 5, 20 and 10, the first layer with a popup as well.
\<close>

definition hostWithoutBackground :: "EntrypointInfo list" where
  "hostWithoutBackground =
     [\<lparr>name = ''options'', inputPath = ''/proj/src/entrypoints/options.html'', type = Options\<rparr>]"

definition collectedBackgrounds :: "LayerEntrypointInfo list" where
  "collectedBackgrounds =
     [\<lparr>order = 10, layerName = ''alpha'', entrypointName = ''background'',
       info = \<lparr>name = ''background'', inputPath = ''/proj/layers/alpha/entrypoints/background.ts'',
               type = Background\<rparr>\<rparr>,
      \<lparr>order = 10, layerName = ''alpha'', entrypointName = ''popup'',
       info = \<lparr>name = ''popup'', inputPath = ''/proj/layers/alpha/entrypoints/popup.html'',
               type = Popup\<rparr>\<rparr>,
      \<lparr>order = 5, layerName = ''beta'', entrypointName = ''background'',
       info = \<lparr>name = ''background'', inputPath = ''/proj/layers/beta/entrypoints/background.ts'',
               type = Background\<rparr>\<rparr>,
      \<lparr>order = 20, layerName = ''gamma'', entrypointName = ''background'',
       info = \<lparr>name = ''background'', inputPath = ''/proj/layers/gamma/entrypoints/background.ts'',
               type = Background\<rparr>\<rparr>,
      \<lparr>order = 10, layerName = ''my-delta'', entrypointName = ''background'',
       info = \<lparr>name = ''background'', inputPath = ''/proj/layers/my-delta/entrypoints/background.ts'',
               type = Background\<rparr>\<rparr>]"

text \<open>
  Two sources, \<^verbatim>\<open>layers/*\<close> and \<^verbatim>\<open>packages/*\<close>, that each hold a layer
  \<open>auth\<close> with a background; and the options of a layer that sets nothing.
\<close>

definition fsSameLayerName :: FileSystem where
  "fsSameLayerName =
     map_of
       [(''/proj/layers/auth'', Dir [''entrypoints'']),
        (''/proj/layers/auth/entrypoints'', Dir [''background.ts'']),
        (''/proj/layers/auth/entrypoints/background.ts'', File),
        (''/proj/packages/auth'', Dir [''entrypoints'']),
        (''/proj/packages/auth/entrypoints'', Dir [''background.ts'']),
        (''/proj/packages/auth/entrypoints/background.ts'', File)]"

definition collectedSameLayerName :: "LayerEntrypointInfo list" where
  "collectedSameLayerName =
     [\<lparr>order = 100, layerName = ''auth'', entrypointName = ''background'',
       info = \<lparr>name = ''background'', inputPath = ''/proj/layers/auth/entrypoints/background.ts'',
               type = Background\<rparr>\<rparr>,
      \<lparr>order = 100, layerName = ''auth'', entrypointName = ''background'',
       info = \<lparr>name = ''background'', inputPath = ''/proj/packages/auth/entrypoints/background.ts'',
               type = Background\<rparr>\<rparr>]"

definition noLayerOptions :: LayerOptions where
  "noLayerOptions =
     \<lparr>layerAlias = None, autoImports = None, entrypoints = None, publicPrefix = None,
      LayerOptions.order = None\<rparr>"

definition initialState :: SetupState where
  "initialState = \<lparr>configAlias = None, allAutoImportPaths = [], allEntrypoints = []\<rparr>"

text \<open>Two layers that each hold an unlisted script \<open>foo\<close>.\<close>

definition collectedDuplicates :: "LayerEntrypointInfo list" where
  "collectedDuplicates =
     [\<lparr>order = 100, layerName = ''a'', entrypointName = ''foo'',
       info = \<lparr>name = ''foo'', inputPath = ''/proj/layers/a/entrypoints/foo.ts'',
               type = UnlistedScript\<rparr>\<rparr>,
      \<lparr>order = 100, layerName = ''b'', entrypointName = ''foo'',
       info = \<lparr>name = ''foo'', inputPath = ''/proj/layers/b/entrypoints/foo.ts'',
               type = UnlistedScript\<rparr>\<rparr>]"

section \<open>The classifier's table\<close>

text \<open>
  Claim C3.  The classifier sends \<open>(background, .ts)\<close> to background,
  \<open>(popup, .html)\<close> to popup, \<open>(x.content, .ts)\<close> to content-script,
  \<open>(x.sidepanel, .html)\<close> to sidepanel, \<open>(styles, .scss)\<close> to unlisted-style and
  \<open>(random, .ts)\<close> to unlisted-script.  The first match wins in the order
  stylesheet extension, then \<^verbatim>\<open>.html\<close> names, then script names: a stylesheet
  extension gives unlisted-style whatever the name (also for a page name or
  \<open>background\<close>), an \<^verbatim>\<open>.html\<close> file is never a script kind (\<open>background\<close> and
  \<open>x.content\<close> are unlisted pages there), and a script is never a page kind.
\<close>

theorem determineEntrypointType_table:
  "determineEntrypointType ''background'' ''.ts'' = Background
   \<and> determineEntrypointType ''popup'' ''.html'' = Popup
   \<and> determineEntrypointType ''x.content'' ''.ts'' = ContentScript
   \<and> determineEntrypointType ''x.sidepanel'' ''.html'' = Sidepanel
   \<and> determineEntrypointType ''styles'' ''.scss'' = UnlistedStyle
   \<and> determineEntrypointType ''random'' ''.ts'' = UnlistedScript
   \<and> (\<forall>nm. determineEntrypointType nm ''.css'' = UnlistedStyle
           \<and> determineEntrypointType nm ''.scss'' = UnlistedStyle
           \<and> determineEntrypointType nm ''.sass'' = UnlistedStyle
           \<and> determineEntrypointType nm ''.less'' = UnlistedStyle
           \<and> determineEntrypointType nm ''.styl'' = UnlistedStyle
           \<and> determineEntrypointType nm ''.stylus'' = UnlistedStyle)
   \<and> determineEntrypointType ''popup'' ''.css'' = UnlistedStyle
   \<and> determineEntrypointType ''background'' ''.scss'' = UnlistedStyle
   \<and> determineEntrypointType ''options'' ''.html'' = Options
   \<and> determineEntrypointType ''newtab'' ''.html'' = Newtab
   \<and> determineEntrypointType ''devtools'' ''.html'' = Devtools
   \<and> determineEntrypointType ''bookmarks'' ''.html'' = Bookmarks
   \<and> determineEntrypointType ''history'' ''.html'' = History
   \<and> determineEntrypointType ''sidepanel'' ''.html'' = Sidepanel
   \<and> determineEntrypointType ''x.sandbox'' ''.html'' = Sandbox
   \<and> determineEntrypointType ''sandbox'' ''.html'' = Sandbox
   \<and> determineEntrypointType ''background'' ''.html'' = UnlistedPage
   \<and> determineEntrypointType ''x.content'' ''.html'' = UnlistedPage
   \<and> determineEntrypointType ''popup'' ''.ts'' = UnlistedScript
   \<and> determineEntrypointType ''x.sidepanel'' ''.ts'' = UnlistedScript
   \<and> determineEntrypointType ''content'' ''.ts'' = ContentScript
   \<and> (\<forall>nm. determineEntrypointType nm ''.html''
              \<in> {Popup, Options, Newtab, Devtools, Bookmarks, History, Sidepanel, Sandbox, UnlistedPage})
   \<and> (\<forall>nm. determineEntrypointType nm ''.ts'' \<in> {Background, ContentScript, UnlistedScript})"
  by (simp add: determineEntrypointType_def endsWith_def)

section \<open>Explicit entrypoints\<close>

lemma splitOn_takeWhile:
  "splitOn c s = takeWhile (\<lambda>x. x \<noteq> c) s # tl (splitOn c s)"
  by (induction s) (auto split: list.splits)

lemma firstPart_takeWhile: "firstPart key = takeWhile (\<lambda>x. x \<noteq> CHR ''.'') key"
  by (subst firstPart_def, subst splitOn_takeWhile) simp

lemma resolveEntrypointsLoop_append:
  "resolveEntrypointsLoop cwd fs config lp acc = acc @ resolveEntrypointsLoop cwd fs config lp []"
proof (induction config arbitrary: acc)
  case Nil
  show ?case by simp
next
  case (Cons a config)
  obtain key v where a: "a = (key, v)" by (cases a)
  show ?case
  proof (cases v)
    case None
    with a Cons.IH [of acc] show ?thesis by simp
  next
    case (Some p)
    let ?e = "\<lparr>name = firstPart key, inputPath = resolve cwd [lp, p],
               type = determineEntrypointType key (extname (resolve cwd [lp, p]))\<rparr>"
    show ?thesis
    proof (cases "p \<noteq> [] \<and> existsSync fs (resolve cwd [lp, p])")
      case True
      have "resolveEntrypointsLoop cwd fs config lp (acc @ [?e])
              = acc @ resolveEntrypointsLoop cwd fs config lp [?e]"
      proof -
        have "resolveEntrypointsLoop cwd fs config lp (acc @ [?e])
                = (acc @ [?e]) @ resolveEntrypointsLoop cwd fs config lp []"
          by (rule Cons.IH)
        also have "\<dots> = acc @ ([?e] @ resolveEntrypointsLoop cwd fs config lp [])"
          by simp
        also have "[?e] @ resolveEntrypointsLoop cwd fs config lp []
                = resolveEntrypointsLoop cwd fs config lp [?e]"
          by (rule Cons.IH [symmetric])
        finally show ?thesis .
      qed
      with True show ?thesis by (simp add: a Some Let_def)
    next
      case False
      with Cons.IH [of acc] show ?thesis by (auto simp: a Some Let_def)
    qed
  qed
qed

lemma resolveEntrypoints_Cons:
  "resolveEntrypoints cwd fs ((key, v) # config) lp =
     (case v of
        None \<Rightarrow> resolveEntrypoints cwd fs config lp
      | Some p \<Rightarrow>
          if p \<noteq> [] \<and> existsSync fs (resolve cwd [lp, p])
          then \<lparr>name = firstPart key, inputPath = resolve cwd [lp, p],
                 type = determineEntrypointType key (extname (resolve cwd [lp, p]))\<rparr>
               # resolveEntrypoints cwd fs config lp
          else resolveEntrypoints cwd fs config lp)"
  using resolveEntrypointsLoop_append [of cwd fs config lp "[\<lparr>name = firstPart key, inputPath = resolve cwd [lp, p],
                 type = determineEntrypointType key (extname (resolve cwd [lp, p]))\<rparr>]" for p]
  by (simp add: resolveEntrypoints_def Let_def split: option.splits)

text \<open>
  Claim C5, as the code has it.  In explicit mode, a declared entry whose path is
  set and resolves to an existing file produces an entrypoint whose name is the part
  of the declared key before its first dot (the whole key when it has none), and the
  classifier receives the declared key verbatim, with the extension of the resolved
  path.
\<close>

theorem resolveEntrypoints_declared:
  assumes "(key, Some p) \<in> set config" and "p \<noteq> []"
    and "existsSync fs (resolve cwd [layerPath, p])"
  shows "\<lparr>name = takeWhile (\<lambda>c. c \<noteq> CHR ''.'') key,
          inputPath = resolve cwd [layerPath, p],
          type = determineEntrypointType key (extname (resolve cwd [layerPath, p]))\<rparr>
         \<in> set (resolveEntrypoints cwd fs config layerPath)"
  using assms
proof (induction config)
  case Nil
  then show ?case by simp
next
  case (Cons a config)
  obtain k v where a: "a = (k, v)" by (cases a)
  show ?case
  proof (cases "a = (key, Some p)")
    case True
    with Cons.prems show ?thesis
      by (simp add: resolveEntrypoints_Cons firstPart_takeWhile)
  next
    case False
    with Cons have "\<lparr>name = takeWhile (\<lambda>c. c \<noteq> CHR ''.'') key,
          inputPath = resolve cwd [layerPath, p],
          type = determineEntrypointType key (extname (resolve cwd [layerPath, p]))\<rparr>
         \<in> set (resolveEntrypoints cwd fs config layerPath)" by simp
    then show ?thesis
      by (simp add: a resolveEntrypoints_Cons split: option.splits)
  qed
qed

text \<open>The declared key \<open>linkedin.content\<close> on the example layer.\<close>

theorem resolveEntrypoints_declared_witness:
  "(''linkedin.content'', Some ''content/linkedin.ts'') \<in> set [(''linkedin.content'', Some ''content/linkedin.ts'')]
   \<and> existsSync fsDemo (resolve ''/'' [''/proj/layers/demo'', ''content/linkedin.ts''])
   \<and> \<lparr>name = ''linkedin'', inputPath = ''/proj/layers/demo/content/linkedin.ts'', type = ContentScript\<rparr>
       \<in> set (resolveEntrypoints ''/'' fsDemo [(''linkedin.content'', Some ''content/linkedin.ts'')] ''/proj/layers/demo'')"
proof -
  have ex: "existsSync fsDemo (resolve ''/'' [''/proj/layers/demo'', ''content/linkedin.ts''])"
    by code_simp
  have r: "resolve ''/'' [''/proj/layers/demo'', ''content/linkedin.ts''] = ''/proj/layers/demo/content/linkedin.ts''"
    by code_simp
  have t: "determineEntrypointType ''linkedin.content'' (extname ''/proj/layers/demo/content/linkedin.ts'') = ContentScript"
    by code_simp
  from resolveEntrypoints_declared [of "''linkedin.content''" "''content/linkedin.ts''"
      "[(''linkedin.content'', Some ''content/linkedin.ts'')]" fsDemo "''/''" "''/proj/layers/demo''"] ex
  show ?thesis by (simp add: r t)
qed

text \<open>
  The claim as the specification words it (the declared name kept verbatim, the
  classifier given the part before the dot) fails on the same input: the entrypoint
  is named \<open>linkedin\<close>, not \<open>linkedin.content\<close>, and its kind is the classifier's
  answer for the whole key, not for \<open>linkedin\<close>.
\<close>

theorem resolveEntrypoints_name_not_verbatim:
  "resolveEntrypoints ''/'' fsDemo [(''linkedin.content'', Some ''content/linkedin.ts'')] ''/proj/layers/demo''
     = [\<lparr>name = ''linkedin'', inputPath = ''/proj/layers/demo/content/linkedin.ts'',
          type = ContentScript\<rparr>]
   \<and> ''linkedin'' \<noteq> ''linkedin.content''
   \<and> determineEntrypointType ''linkedin'' ''.ts'' \<noteq> ContentScript"
  by code_simp

section \<open>Scanned entrypoints\<close>

lemma normalize_nonempty: "normalize p \<noteq> []"
  by (simp add: normalize_def Let_def)

lemma join_nonempty: "join args \<noteq> []"
  by (simp add: join_def Let_def normalize_nonempty)

lemma scanEntries_names:
  "scanEntries fs d es acc = Inr r \<Longrightarrow>
     map name r = map name acc @
       concat (map (\<lambda>entry. case scanEntry fs d entry of
                               Inl err \<Rightarrow> []
                             | Inr (p, n) \<Rightarrow> if p \<noteq> [] \<and> n \<noteq> [] then [n] else []) es)"
proof (induction es arbitrary: acc)
  case Nil
  then show ?case by simp
next
  case (Cons e es)
  show ?case
  proof (cases "scanEntry fs d e")
    case (Inl err)
    with Cons.prems show ?thesis by simp
  next
    case (Inr pn)
    obtain p n where pn: "pn = (p, n)" by (cases pn)
    show ?thesis
    proof (cases "p \<noteq> [] \<and> n \<noteq> []")
      case True
      with Cons.prems Inr pn
      have "scanEntries fs d es
              (acc @ [\<lparr>name = n, inputPath = p, type = determineEntrypointType n (extname p)\<rparr>]) = Inr r"
        by simp
      from Cons.IH [OF this] True Inr pn show ?thesis by simp
    next
      case False
      with Cons.prems Inr pn have "scanEntries fs d es acc = Inr r" by auto
      from Cons.IH [OF this] False Inr pn show ?thesis by auto
    qed
  qed
qed

lemma scanEntry_file:
  "fs (join [d, e]) = Some File \<Longrightarrow> scanEntry fs d e = Inr (join [d, e], basenameExt e (extname e))"
  by (simp add: scanEntry_def statIsDirectory_def Let_def)

text \<open>
  Claim C6, as the code has it.  A scan returns, in listing order, one entrypoint for
  each entry of the entrypoints folder to which the loop gives a non-empty input path
  and name (a file: its name without the extension; a directory with an index file: the
  directory's name), and keeps them all: names are not de-duplicated.  When every
  entry is a file, the names are the entries' names without their extensions, so the
  list has no repeated name exactly when those are pairwise different.
\<close>

theorem scanLayerEntrypoints_names:
  assumes "fs (join [layerPath, ''entrypoints'']) = Some (Dir entries)"
    and "scanLayerEntrypoints fs layerPath = Inr r"
  shows "map name r =
           concat (map (\<lambda>entry. case scanEntry fs (join [layerPath, ''entrypoints'']) entry of
                                   Inl err \<Rightarrow> []
                                 | Inr (p, n) \<Rightarrow> if p \<noteq> [] \<and> n \<noteq> [] then [n] else []) entries)
         \<and> ((\<forall>entry \<in> set entries. fs (join [join [layerPath, ''entrypoints''], entry]) = Some File) \<longrightarrow>
              map name r = filter (\<lambda>n. n \<noteq> []) (map (\<lambda>entry. basenameExt entry (extname entry)) entries))"
proof -
  let ?d = "join [layerPath, ''entrypoints'']"
  let ?f = "\<lambda>entry. case scanEntry fs ?d entry of
                                   Inl err \<Rightarrow> []
                                 | Inr (p, n) \<Rightarrow> if p \<noteq> [] \<and> n \<noteq> [] then [n] else []"
  from assms have "scanEntries fs ?d entries [] = Inr r"
    by (simp add: scanLayerEntrypoints_def Let_def existsSync_def readdirSync_def)
  from scanEntries_names [OF this] have names: "map name r = concat (map ?f entries)"
    by simp
  have files: "concat (map ?f es) = filter (\<lambda>n. n \<noteq> []) (map (\<lambda>entry. basenameExt entry (extname entry)) es)"
    if "\<forall>entry \<in> set es. fs (join [?d, entry]) = Some File" for es
    using that by (induction es) (simp_all add: scanEntry_file join_nonempty)
  from names files show ?thesis by simp
qed

text \<open>
  The example layer (a directory with an index file, one without), and the folder
  holding \<open>foo.ts\<close> and \<open>foo.css\<close>, where every entry is a file.
\<close>

theorem scanLayerEntrypoints_names_witness:
  "fsDemo (join [''/proj/layers/demo'', ''entrypoints''])
      = Some (Dir [''popup.html'', ''background.ts'', ''panel'', ''empty''])
   \<and> scanLayerEntrypoints fsDemo ''/proj/layers/demo''
      = Inr [\<lparr>name = ''popup'', inputPath = ''/proj/layers/demo/entrypoints/popup.html'', type = Popup\<rparr>,
             \<lparr>name = ''background'', inputPath = ''/proj/layers/demo/entrypoints/background.ts'', type = Background\<rparr>,
             \<lparr>name = ''panel'', inputPath = ''/proj/layers/demo/entrypoints/panel/index.html'', type = UnlistedPage\<rparr>]
   \<and> concat (map (\<lambda>entry. case scanEntry fsDemo (join [''/proj/layers/demo'', ''entrypoints'']) entry of
                                   Inl err \<Rightarrow> []
                                 | Inr (p, n) \<Rightarrow> if p \<noteq> [] \<and> n \<noteq> [] then [n] else [])
                [''popup.html'', ''background.ts'', ''panel'', ''empty''])
      = [''popup'', ''background'', ''panel'']
   \<and> fsDuplicateNames (join [''/proj/layers/a'', ''entrypoints'']) = Some (Dir [''foo.ts'', ''foo.css''])
   \<and> list_all (\<lambda>entry. fsDuplicateNames (join [join [''/proj/layers/a'', ''entrypoints''], entry]) = Some File)
        [''foo.ts'', ''foo.css'']
   \<and> map name (projr (scanLayerEntrypoints fsDuplicateNames ''/proj/layers/a''))
      = filter (\<lambda>n. n \<noteq> []) (map (\<lambda>entry. basenameExt entry (extname entry)) [''foo.ts'', ''foo.css''])"
proof -
  have a: "fsDemo (join [''/proj/layers/demo'', ''entrypoints''])
      = Some (Dir [''popup.html'', ''background.ts'', ''panel'', ''empty''])"
    by code_simp
  have b: "scanLayerEntrypoints fsDemo ''/proj/layers/demo''
      = Inr [\<lparr>name = ''popup'', inputPath = ''/proj/layers/demo/entrypoints/popup.html'', type = Popup\<rparr>,
             \<lparr>name = ''background'', inputPath = ''/proj/layers/demo/entrypoints/background.ts'', type = Background\<rparr>,
             \<lparr>name = ''panel'', inputPath = ''/proj/layers/demo/entrypoints/panel/index.html'', type = UnlistedPage\<rparr>]"
    by code_simp
  have c: "fsDuplicateNames (join [''/proj/layers/a'', ''entrypoints'']) = Some (Dir [''foo.ts'', ''foo.css''])"
    by code_simp
  have d: "scanLayerEntrypoints fsDuplicateNames ''/proj/layers/a''
      = Inr (projr (scanLayerEntrypoints fsDuplicateNames ''/proj/layers/a''))"
    by code_simp
  have e: "list_all (\<lambda>entry. fsDuplicateNames (join [join [''/proj/layers/a'', ''entrypoints''], entry]) = Some File)
        [''foo.ts'', ''foo.css'']"
    by code_simp
  have e': "\<forall>entry \<in> set [''foo.ts'', ''foo.css''].
             fsDuplicateNames (join [join [''/proj/layers/a'', ''entrypoints''], entry]) = Some File"
    using e unfolding list_all_iff .
  have f: "concat (map (\<lambda>entry. case scanEntry fsDemo (join [''/proj/layers/demo'', ''entrypoints'']) entry of
                                   Inl err \<Rightarrow> []
                                 | Inr (p, n) \<Rightarrow> if p \<noteq> [] \<and> n \<noteq> [] then [n] else [])
                [''popup.html'', ''background.ts'', ''panel'', ''empty''])
      = [''popup'', ''background'', ''panel'']"
    using scanLayerEntrypoints_names [OF a b, THEN conjunct1, symmetric] by simp
  have g: "map name (projr (scanLayerEntrypoints fsDuplicateNames ''/proj/layers/a''))
      = filter (\<lambda>n. n \<noteq> []) (map (\<lambda>entry. basenameExt entry (extname entry)) [''foo.ts'', ''foo.css''])"
    by (rule scanLayerEntrypoints_names [OF c d, THEN conjunct2, THEN mp, OF e'])
  from a b f c e g show ?thesis by (intro conjI)
qed

text \<open>
  The claim that one scan never returns two entries of the same name fails on a folder
  with \<open>foo.ts\<close> and \<open>foo.css\<close>: both are returned under the name \<open>foo\<close>.
\<close>

theorem scanLayerEntrypoints_duplicate_names:
  "scanLayerEntrypoints fsDuplicateNames ''/proj/layers/a''
     = Inr [\<lparr>name = ''foo'', inputPath = ''/proj/layers/a/entrypoints/foo.ts'',
              type = UnlistedScript\<rparr>,
            \<lparr>name = ''foo'', inputPath = ''/proj/layers/a/entrypoints/foo.css'',
              type = UnlistedStyle\<rparr>]
   \<and> \<not> distinct (map name (projr (scanLayerEntrypoints fsDuplicateNames ''/proj/layers/a'')))"
  by code_simp

section \<open>Source normalization\<close>

lemma resolveLoop_absolute:
  "\<exists>p \<in> set ps. isAbsolute p \<Longrightarrow> snd (resolveLoop ps acc)"
  by (induction ps arbitrary: acc) (auto simp: isAbsolute_def)

lemma resolve_absolute: "isAbsolute cwd \<Longrightarrow> isAbsolute (resolve cwd args)"
proof -
  assume "isAbsolute cwd"
  then have "snd (resolveLoop (rev (cwd # args)) [])"
    by (intro resolveLoop_absolute) simp
  then obtain rp where "resolveLoop (rev (cwd # args)) [] = (rp, True)"
    by (cases "resolveLoop (rev (cwd # args)) []") auto
  then show ?thesis
    by (simp add: resolve_def isAbsolute_def Let_def)
qed

text \<open>
  Claim C10.  Source normalization returns one options object for each declared
  source, in order: a bare string becomes an object with only its source and the
  default source alias \<^verbatim>\<open>#{name}\<close>; an options object keeps its fields, its
  source alias defaulting to \<^verbatim>\<open>#{name}\<close> when unset; the source is resolved
  against the root directory, and is an absolute path (the working directory being
  one).  An undefined input gives the single source \<^verbatim>\<open>layers/*\<close>.
\<close>

theorem resolveSources_normalizes:
  "list_all2
     (\<lambda>declared resolved.
        case declared of
          SourceString str \<Rightarrow>
            resolved = \<lparr>layerAlias = None, autoImports = None, entrypoints = None, publicPrefix = None,
                        source = resolve cwd [rootDir, str], sourceAlias = Some ''#{name}''\<rparr>
        | SourceObject obj \<Rightarrow>
            resolved = obj\<lparr>source := resolve cwd [rootDir, source obj],
                           sourceAlias := Some (case sourceAlias obj of None \<Rightarrow> ''#{name}'' | Some a \<Rightarrow> a)\<rparr>)
     (case sources of None \<Rightarrow> [SourceString ''layers/*''] | Some (One v) \<Rightarrow> [v] | Some (Many vs) \<Rightarrow> vs)
     (resolveSources cwd rootDir sources)
   \<and> resolveSources cwd rootDir None =
       [\<lparr>layerAlias = None, autoImports = None, entrypoints = None, publicPrefix = None,
         source = resolve cwd [rootDir, ''layers/*''], sourceAlias = Some ''#{name}''\<rparr>]
   \<and> (isAbsolute cwd \<longrightarrow> list_all (\<lambda>resolved. isAbsolute (source resolved)) (resolveSources cwd rootDir sources))"
proof (intro conjI impI)
  show "list_all2
     (\<lambda>declared resolved.
        case declared of
          SourceString str \<Rightarrow>
            resolved = \<lparr>layerAlias = None, autoImports = None, entrypoints = None, publicPrefix = None,
                        source = resolve cwd [rootDir, str], sourceAlias = Some ''#{name}''\<rparr>
        | SourceObject obj \<Rightarrow>
            resolved = obj\<lparr>source := resolve cwd [rootDir, source obj],
                           sourceAlias := Some (case sourceAlias obj of None \<Rightarrow> ''#{name}'' | Some a \<Rightarrow> a)\<rparr>)
     (case sources of None \<Rightarrow> [SourceString ''layers/*''] | Some (One v) \<Rightarrow> [v] | Some (Many vs) \<Rightarrow> vs)
     (resolveSources cwd rootDir sources)"
    by (auto simp: resolveSources_def list_all2_map2 list_all2_same
             split: option.splits OneOrMany.splits SourceInput.splits)
next
  show "resolveSources cwd rootDir None =
       [\<lparr>layerAlias = None, autoImports = None, entrypoints = None, publicPrefix = None,
         source = resolve cwd [rootDir, ''layers/*''], sourceAlias = Some ''#{name}''\<rparr>]"
    by (simp add: resolveSources_def)
next
  assume "isAbsolute cwd"
  then show "list_all (\<lambda>resolved. isAbsolute (source resolved)) (resolveSources cwd rootDir sources)"
    by (simp add: resolveSources_def list_all_iff resolve_absolute)
qed

text \<open>A bare pattern and an options object with an absolute source, under \<^verbatim>\<open>/proj\<close>.\<close>

theorem resolveSources_normalizes_witness:
  "isAbsolute ''/''
   \<and> list_all (\<lambda>resolved. isAbsolute (source resolved))
         (resolveSources ''/'' ''/proj''
            (Some (Many [SourceString ''packages/*'',
                         SourceObject \<lparr>layerAlias = Some [], autoImports = None, entrypoints = None,
                                       publicPrefix = None, source = ''/abs/x'', sourceAlias = Some ''#x''\<rparr>])))
   \<and> resolveSources ''/'' ''/proj''
         (Some (Many [SourceString ''packages/*'',
                      SourceObject \<lparr>layerAlias = Some [], autoImports = None, entrypoints = None,
                                    publicPrefix = None, source = ''/abs/x'', sourceAlias = Some ''#x''\<rparr>]))
       = [\<lparr>layerAlias = None, autoImports = None, entrypoints = None, publicPrefix = None,
           source = ''/proj/packages/*'', sourceAlias = Some ''#{name}''\<rparr>,
          \<lparr>layerAlias = Some [], autoImports = None, entrypoints = None, publicPrefix = None,
           source = ''/abs/x'', sourceAlias = Some ''#x''\<rparr>]"
proof -
  have a: "isAbsolute ''/''" by (simp add: isAbsolute_def)
  have b: "resolveSources ''/'' ''/proj''
         (Some (Many [SourceString ''packages/*'',
                      SourceObject \<lparr>layerAlias = Some [], autoImports = None, entrypoints = None,
                                    publicPrefix = None, source = ''/abs/x'', sourceAlias = Some ''#x''\<rparr>]))
       = [\<lparr>layerAlias = None, autoImports = None, entrypoints = None, publicPrefix = None,
           source = ''/proj/packages/*'', sourceAlias = Some ''#{name}''\<rparr>,
          \<lparr>layerAlias = Some [], autoImports = None, entrypoints = None, publicPrefix = None,
           source = ''/abs/x'', sourceAlias = Some ''#x''\<rparr>]"
    by code_simp
  have c: "list_all (\<lambda>resolved. isAbsolute (source resolved))
         (resolveSources ''/'' ''/proj''
            (Some (Many [SourceString ''packages/*'',
                         SourceObject \<lparr>layerAlias = Some [], autoImports = None, entrypoints = None,
                                       publicPrefix = None, source = ''/abs/x'', sourceAlias = Some ''#x''\<rparr>])))"
    by (rule resolveSources_normalizes [THEN conjunct2, THEN conjunct2, THEN mp, OF a])
  from a b c show ?thesis by (intro conjI)
qed

section \<open>Aliases\<close>

text \<open>A binding with a non-empty path survives every later registration.\<close>

lemma setAlias_keeps_binding:
  assumes "aliasLookup current key = Some p" and "p \<noteq> []"
  shows "aliasLookup (setAlias current q alias) key = Some p"
  using assms
  by (auto simp: setAlias_def aliasLookup_def aliasDefined_def Let_def
           split: option.splits)

text \<open>
  Claim C7 at its failing input.  The source \<^verbatim>\<open>/*\<close> with the source alias
  \<^verbatim>\<open>#all\<close> registers the key \<^verbatim>\<open>#all\<close> with the empty path (the pattern
  without its wildcard); the table reads an empty path as "not defined", so a layer
  whose alias is \<^verbatim>\<open>#all\<close> overwrites the first binding.  A key that names a
  member of \<^verbatim>\<open>Object.prototype\<close> is never registered at all.
\<close>

theorem setAlias_overwrites_empty_path:
  "aliasLookup
     (registerSourceAliases None
        (resolveSources ''/'' ''/proj''
           (Some (Many [SourceObject \<lparr>layerAlias = None, autoImports = None, entrypoints = None,
                                       publicPrefix = None, source = ''/*'',
                                       sourceAlias = Some ''#all''\<rparr>]))))
     ''#all'' = Some []
   \<and> aliasLookup
       (setAlias
          (registerSourceAliases None
             (resolveSources ''/'' ''/proj''
                (Some (Many [SourceObject \<lparr>layerAlias = None, autoImports = None, entrypoints = None,
                                            publicPrefix = None, source = ''/*'',
                                            sourceAlias = Some ''#all''\<rparr>]))))
          ''/tmp'' (Some ''#all''))
       ''#all'' = Some ''/tmp''
   \<and> aliasLookup (setAlias None ''/proj/layers/constructor'' (Some ''{name}'')) ''constructor'' = None"
  by code_simp

section \<open>Collected entrypoints and auto-import folders\<close>

text \<open>Entrypoints collected for a layer whose options set no order carry the order 100.\<close>

lemma collectEntrypoints_order:
  assumes "LayerOptions.order layerOptions = None"
    and "\<forall>e \<in> set collected. order e = 100"
  shows "\<forall>e \<in> set (collectEntrypoints lname layerOptions layerEntrypoints collected). order e = 100"
  using assms
  by (induction lname layerOptions layerEntrypoints collected rule: collectEntrypoints.induct) auto

text \<open>
  Claim C8 at its failing input: the example layer, scanned under options that set
  no order.  Every collected entrypoint gets the order 100, where the claim and the
  comment on \<^verbatim>\<open>LayerOptions.order\<close> say 50.
\<close>

theorem processLayer_default_order:
  "map_sum id (\<lambda>st. map (\<lambda>e. (entrypointName e, order e)) (allEntrypoints st))
     (processLayer ''/'' fsDemo
        \<lparr>configAlias = None, allAutoImportPaths = [], allEntrypoints = []\<rparr>
        ''/proj/layers/demo''
        \<lparr>layerAlias = Some ''#{name}'', autoImports = None, entrypoints = None,
         publicPrefix = None, LayerOptions.order = None\<rparr>)
   = Inr [(''popup'', 100), (''background'', 100), (''panel'', 100)]"
  by code_simp

text \<open>
  Claim C9 at its failing input: the same layer reached through two sources, with
  the auto-import folder \<^verbatim>\<open>utils\<close>.  Its absolute path is collected twice; the
  hook looks for the absolute path in a list to which it adds the path relative to
  the source directory, so the second one is added as well.
\<close>

theorem configResolved_keeps_duplicates:
  "map_sum id allAutoImportPaths
     (processLayers ''/'' fsDemo
        \<lparr>configAlias = None, allAutoImportPaths = [], allEntrypoints = []\<rparr>
        [(''/proj/layers/demo'',
          \<lparr>layerAlias = Some ''#{name}'', autoImports = Some [''utils''], entrypoints = None,
           publicPrefix = None, LayerOptions.order = None\<rparr>),
         (''/proj/layers/demo'',
          \<lparr>layerAlias = Some ''#{name}'', autoImports = Some [''utils''], entrypoints = None,
           publicPrefix = None, LayerOptions.order = None\<rparr>)])
     = Inr [''/proj/layers/demo/utils'', ''/proj/layers/demo/utils'']
   \<and> configResolved ''/'' ''/proj/src''
         [''/proj/layers/demo/utils'', ''/proj/layers/demo/utils'']
         \<lparr>disabled = False, dirs = Some []\<rparr>
       = \<lparr>disabled = False, dirs = Some [''../layers/demo/utils'', ''../layers/demo/utils'']\<rparr>"
  by code_simp

section \<open>The entrypoint list left to the host\<close>

lemma addLayerEntrypoints_filter:
  "addLayerEntrypoints collected infos backgrounds =
     (infos @ map info (filter (\<lambda>e. type (info e) \<noteq> Background) collected),
      backgrounds @ filter (\<lambda>e. type (info e) = Background) collected)"
  by (induction collected infos backgrounds rule: addLayerEntrypoints.induct) simp_all

lemma find_append:
  "find P (xs @ ys) = (case find P xs of None \<Rightarrow> find P ys | Some x \<Rightarrow> Some x)"
  by (induction xs) simp_all

lemma find_background_added:
  "find (\<lambda>e. type e = Background)
     (hostInfos @ map info (filter (\<lambda>e. type (info e) \<noteq> Background) collected))
   = find (\<lambda>e. type e = Background) hostInfos"
proof -
  have "find (\<lambda>e. type e = Background)
          (map info (filter (\<lambda>e. type (info e) \<noteq> Background) collected)) = None"
    by (simp add: find_None_iff)
  then show ?thesis by (simp add: find_append split: option.splits)
qed

lemma entrypointsFound_eq:
  "entrypointsFound hostInfos collected =
     (if find (\<lambda>e. type e = Background) hostInfos = None
         \<and> filter (\<lambda>e. type (info e) = Background) collected \<noteq> []
      then (hostInfos @ map info (filter (\<lambda>e. type (info e) \<noteq> Background) collected)
              @ [\<lparr>name = ''background'', inputPath = MODULE_NAME, type = Background\<rparr>],
            Some (sort_key order (filter (\<lambda>e. type (info e) = Background) collected)))
      else (hostInfos @ map info (filter (\<lambda>e. type (info e) \<noteq> Background) collected), None))"
  by (simp add: entrypointsFound_def addLayerEntrypoints_filter find_background_added Let_def)

text \<open>
  Claim C1, as the code has it.  The hook never aborts and compares no names: the
  list it leaves is the host's list, then every layer entrypoint that is not a
  background, in the order collected, then the virtual background when one is
  created.  So that list has no two entries of the same name exactly when the names of
  the host's entries, of the layers' other entrypoints and (when added) the name
  \<open>background\<close> are pairwise different; rejecting a repeated name is left to the host.
\<close>

theorem entrypointsFound_appends_all:
  "fst (entrypointsFound hostInfos collected) =
     hostInfos @ map info (filter (\<lambda>e. type (info e) \<noteq> Background) collected)
       @ (if find (\<lambda>e. type e = Background) hostInfos = None
             \<and> filter (\<lambda>e. type (info e) = Background) collected \<noteq> []
          then [\<lparr>name = ''background'', inputPath = MODULE_NAME, type = Background\<rparr>] else [])
   \<and> distinct (map name (fst (entrypointsFound hostInfos collected))) =
       distinct (map name hostInfos
                   @ map (\<lambda>e. name (info e)) (filter (\<lambda>e. type (info e) \<noteq> Background) collected)
                   @ (if find (\<lambda>e. type e = Background) hostInfos = None
                         \<and> filter (\<lambda>e. type (info e) = Background) collected \<noteq> []
                      then [''background''] else []))"
proof -
  have a: "fst (entrypointsFound hostInfos collected) =
     hostInfos @ map info (filter (\<lambda>e. type (info e) \<noteq> Background) collected)
       @ (if find (\<lambda>e. type e = Background) hostInfos = None
             \<and> filter (\<lambda>e. type (info e) = Background) collected \<noteq> []
          then [\<lparr>name = ''background'', inputPath = MODULE_NAME, type = Background\<rparr>] else [])"
    by (simp add: entrypointsFound_eq)
  have b: "map name (fst (entrypointsFound hostInfos collected)) =
       map name hostInfos
         @ map (\<lambda>e. name (info e)) (filter (\<lambda>e. type (info e) \<noteq> Background) collected)
         @ (if find (\<lambda>e. type e = Background) hostInfos = None
               \<and> filter (\<lambda>e. type (info e) = Background) collected \<noteq> []
            then [''background''] else [])"
    by (simp add: a comp_def)
  show ?thesis by (rule conjI) (fact a, simp only: b)
qed

text \<open>The hook on the host with an options page and the four layers.\<close>

theorem entrypointsFound_appends_all_witness:
  "map name (fst (entrypointsFound hostWithoutBackground collectedBackgrounds))
     = [''options'', ''popup'', ''background'']
   \<and> distinct (map name (fst (entrypointsFound hostWithoutBackground collectedBackgrounds)))"
proof -
  have d: "distinct (map name (fst (entrypointsFound hostWithoutBackground collectedBackgrounds)))"
    by (rule entrypointsFound_appends_all [of hostWithoutBackground collectedBackgrounds,
          THEN conjunct2, THEN iffD2]) code_simp
  have "map name (fst (entrypointsFound hostWithoutBackground collectedBackgrounds))
     = [''options'', ''popup'', ''background'']"
    by code_simp
  with d show ?thesis by (intro conjI)
qed

text \<open>
  The claim that a repeated name always aborts, and that the final list never holds
  one, fails on two layers that each contribute \<open>foo\<close>: the hook returns both.
\<close>

theorem entrypointsFound_keeps_duplicates:
  "entrypointsFound [] collectedDuplicates
     = ([\<lparr>name = ''foo'', inputPath = ''/proj/layers/a/entrypoints/foo.ts'', type = UnlistedScript\<rparr>,
         \<lparr>name = ''foo'', inputPath = ''/proj/layers/b/entrypoints/foo.ts'', type = UnlistedScript\<rparr>],
        None)
   \<and> \<not> distinct (map name (fst (entrypointsFound [] collectedDuplicates)))"
  by code_simp

section \<open>The virtual background\<close>

lemma loadLoop_handlers:
  "handlers (loadLoop es m) =
     handlers m @ map (\<lambda>e. ''init_'' @ replaceNonWord False (layerName e)) es"
  by (induction es m rule: loadLoop.induct) (simp_all add: Let_def)

lemma loadLoop_importLines:
  "importLines (loadLoop es m) =
     importLines m @ map (\<lambda>e. (''init_'' @ replaceNonWord False (layerName e), inputPath (info e))) es"
  by (induction es m rule: loadLoop.induct) (simp_all add: Let_def)

lemma map_of_distinct_keys:
  "distinct (map h es) \<Longrightarrow> e \<in> set es \<Longrightarrow> map_of (map (\<lambda>e. (h e, p e)) es) (h e) = Some (p e)"
  by (induction es) (auto simp: rev_image_eqI)

lemma runAllLoop_bound:
  assumes "distinct (map h es)" and "set called \<subseteq> set es"
  shows "runAllLoop (\<lambda>x. map_option defaultExport (map_of (map (\<lambda>e. (h e, p e)) es) x))
           (map h called) prevResult
         = Inr (foldl (\<lambda>prev e. defaultExport (p e) prev) prevResult called)"
  using assms(2)
proof (induction called arbitrary: prevResult)
  case Nil
  show ?case by simp
next
  case (Cons c called)
  then have "c \<in> set es" and sub: "set called \<subseteq> set es" by simp_all
  from map_of_distinct_keys [OF assms(1) this(1), of p] Cons.IH [OF sub]
  show ?case by simp
qed

lemma distinct_map_sort_key:
  "distinct (map f (sort_key k xs)) = distinct (map f xs)"
proof -
  have "mset (map f (sort_key k xs)) = mset (map f xs)" by simp
  then show ?thesis by (rule mset_eq_imp_distinct_iff)
qed

lemma runAll_load:
  assumes "distinct (map (\<lambda>e. replaceNonWord False (layerName e)) composed)"
  shows "runAll defaultExport undefinedValue (load composed)
         = Inr (foldl (\<lambda>prevResult e. defaultExport (inputPath (info e)) prevResult)
                  undefinedValue composed)"
proof -
  let ?h = "\<lambda>e. ''init_'' @ replaceNonWord False (layerName e)"
  from assms have d: "distinct (map ?h composed)"
    by (simp add: distinct_map inj_on_def)
  have i: "importLines (load composed) = map (\<lambda>e. (?h e, inputPath (info e))) composed"
    by (simp add: load_def loadLoop_importLines)
  have hs: "handlers (load composed) = map ?h composed"
    by (simp add: load_def loadLoop_handlers)
  have "map fst (importLines (load composed)) = map ?h composed"
    by (simp add: i comp_def)
  with d have "distinct (map fst (importLines (load composed)))" by simp
  then show ?thesis
    unfolding runAll_def i hs
    using runAllLoop_bound [OF d subset_refl, of defaultExport "\<lambda>e. inputPath (info e)" undefinedValue]
    by (simp add: comp_def)
qed

text \<open>
  What holds of the virtual background when the labels of the layer backgrounds are
  pairwise different.  With no background among the host's entrypoints and at least
  one from the layers, the hook adds exactly one entrypoint, the virtual one named
  \<open>background\<close>; the layer backgrounds it hands to the virtual module are the collected
  ones, each once, in ascending order, those of equal order in the order collected; and
  the module runs their handlers in that order, the first on the undefined value and
  each next one on the result of the one before.
\<close>

lemma virtual_background_composition:
  assumes "find (\<lambda>e. type e = Background) hostInfos = None"
    and "filter (\<lambda>e. type (info e) = Background) collected \<noteq> []"
    and "distinct (map (\<lambda>e. replaceNonWord False (layerName e))
                    (filter (\<lambda>e. type (info e) = Background) collected))"
  shows "\<exists>composed.
           entrypointsFound hostInfos collected =
             (hostInfos @ map info (filter (\<lambda>e. type (info e) \<noteq> Background) collected)
                @ [\<lparr>name = ''background'', inputPath = MODULE_NAME, type = Background\<rparr>],
              Some composed)
         \<and> sorted (map order composed)
         \<and> mset composed = mset (filter (\<lambda>e. type (info e) = Background) collected)
         \<and> (\<forall>k. filter (\<lambda>e. order e = k) composed
                  = filter (\<lambda>e. order e = k) (filter (\<lambda>e. type (info e) = Background) collected))
         \<and> (\<forall>defaultExport undefinedValue.
               runAll defaultExport undefinedValue (load composed)
                 = Inr (foldl (\<lambda>prevResult e. defaultExport (inputPath (info e)) prevResult)
                          undefinedValue composed))"
proof -
  let ?bg = "filter (\<lambda>e. type (info e) = Background) collected"
  let ?composed = "sort_key order ?bg"
  have "entrypointsFound hostInfos collected =
             (hostInfos @ map info (filter (\<lambda>e. type (info e) \<noteq> Background) collected)
                @ [\<lparr>name = ''background'', inputPath = MODULE_NAME, type = Background\<rparr>],
              Some ?composed)"
    using assms(1,2) by (simp add: entrypointsFound_eq)
  moreover have "sorted (map order ?composed)" by simp
  moreover have "mset ?composed = mset ?bg" by simp
  moreover have "\<forall>k. filter (\<lambda>e. order e = k) ?composed = filter (\<lambda>e. order e = k) ?bg"
    by (simp add: sort_key_stable)
  moreover have "\<forall>defaultExport undefinedValue.
               runAll defaultExport undefinedValue (load ?composed)
                 = Inr (foldl (\<lambda>prevResult e. defaultExport (inputPath (info e)) prevResult)
                          undefinedValue ?composed)"
    using assms(3) by (simp add: runAll_load distinct_map_sort_key)
  ultimately show ?thesis by blast
qed

text \<open>
  Four layers with backgrounds of order 10, 5, 20 and 10 run as 5, 10, 10, 20, the two
  of order 10 as collected; each handler here appends the path of its file to the result
  it receives.
\<close>

lemma virtual_background_composition_example:
  "map name (fst (entrypointsFound hostWithoutBackground collectedBackgrounds))
       = [''options'', ''popup'', ''background'']
   \<and> map_option (map (\<lambda>e. (order e, layerName e)))
        (snd (entrypointsFound hostWithoutBackground collectedBackgrounds))
       = Some [(5, ''beta''), (10, ''alpha''), (10, ''my-delta''), (20, ''gamma'')]
   \<and> map_option (\<lambda>composed. handlers (load composed))
        (snd (entrypointsFound hostWithoutBackground collectedBackgrounds))
       = Some [''init_beta'', ''init_alpha'', ''init_my_delta'', ''init_gamma'']
   \<and> map_option (\<lambda>composed. runAll (\<lambda>p prevResult. prevResult @ [p]) [] (load composed))
        (snd (entrypointsFound hostWithoutBackground collectedBackgrounds))
       = Some (Inr [''/proj/layers/beta/entrypoints/background.ts'',
                    ''/proj/layers/alpha/entrypoints/background.ts'',
                    ''/proj/layers/my-delta/entrypoints/background.ts'',
                    ''/proj/layers/gamma/entrypoints/background.ts''])"
  by code_simp

text \<open>
  Claim C4 at its failing input.  The sources \<^verbatim>\<open>layers/*\<close> and \<^verbatim>\<open>packages/*\<close>
  each hold a layer \<open>auth\<close> with a background, and the host has none.  The hook adds
  the virtual background and composes the two layer backgrounds, but the module written
  for them names both handlers \<^verbatim>\<open>init_auth\<close>, after the layer's name alone: it
  imports one identifier twice, is rejected, and no handler runs, where the claim has
  the handlers run one after the other.
\<close>

theorem virtual_background_duplicate_import:
  "map_sum id allEntrypoints
     (processLayers ''/'' fsSameLayerName initialState
        [(''/proj/layers/auth'', noLayerOptions), (''/proj/packages/auth'', noLayerOptions)])
     = Inr collectedSameLayerName
   \<and> map name (fst (entrypointsFound [] collectedSameLayerName)) = [''background'']
   \<and> map_option (\<lambda>composed. importLines (load composed))
        (snd (entrypointsFound [] collectedSameLayerName))
       = Some [(''init_auth'', ''/proj/layers/auth/entrypoints/background.ts''),
               (''init_auth'', ''/proj/packages/auth/entrypoints/background.ts'')]
   \<and> map_option (\<lambda>composed. runAll (\<lambda>p prevResult. prevResult @ [p]) [] (load composed))
        (snd (entrypointsFound [] collectedSameLayerName))
       = Some (Inl DuplicateImport)"
  by code_simp

section \<open>Properties of the cascade\<close>





section \<open>Properties of shallowMerge\<close>

lemma map_of_setProperty: "map_of (setProperty obj key v) = (map_of obj)(key \<mapsto> v)"
  by (induction obj key v rule: setProperty.induct) (auto simp: fun_eq_iff)

lemma getProperty_setProperty:
  "getProperty (setProperty obj key v) k = (if k = key then v else getProperty obj k)"
  by (simp add: getProperty_def map_of_setProperty)

lemma getProperty_shallowMerge:
  "distinct (map fst entries) \<Longrightarrow>
   getProperty (shallowMerge target entries) k =
     (case map_of entries k of
        None \<Rightarrow> getProperty target k
      | Some v \<Rightarrow> mergeValue (getProperty target k) v)"
proof (induction entries arbitrary: target)
  case Nil
  show ?case by simp
next
  case (Cons e entries)
  obtain key v where e: "e = (key, v)" by (cases e)
  from Cons.prems e have d: "distinct (map fst entries)" and notin: "key \<notin> fst ` set entries"
    by simp_all
  from notin have none: "map_of entries key = None"
    by (simp add: map_of_eq_None_iff)
  show ?case
    using Cons.IH [OF d, of "setProperty target key (mergeValue (getProperty target key) v)"] none
    by (auto simp: e getProperty_setProperty split: option.splits)
qed

text \<open>
  The merge of the utilities, on a source object with unique keys: a key the source
  does not hold keeps the target's value; a string, a number, a callback or undefined
  in the source replaces the target's value; a list in the source is appended to a list
  in the target.
\<close>

lemma shallowMerge_by_kind:
  assumes "distinct (map fst entries)"
  shows "(map_of entries key = None \<longrightarrow>
            getProperty (shallowMerge target entries) key = getProperty target key)
       \<and> (\<forall>v. map_of entries key = Some v \<and> \<not> typeofObject v \<longrightarrow>
            getProperty (shallowMerge target entries) key = v)
       \<and> (\<forall>xs ys. getProperty target key = JArray xs \<and> map_of entries key = Some (JArray ys) \<longrightarrow>
            getProperty (shallowMerge target entries) key = JArray (xs @ ys))"
  using assms
  by (auto simp: getProperty_shallowMerge mergeValue_def isArray_def typeofObject_def
           split: OptionValue.splits)

lemma shallowMerge_lists_example:
  "shallowMerge [(''layerAlias'', JString ''M''), (''autoImports'', JArray [''utils''])]
     [(''autoImports'', JArray [''composables'']), (''layerAlias'', JString ''L'')]
   = [(''layerAlias'', JString ''L''), (''autoImports'', JArray [''utils'', ''composables''])]"
  by code_simp

end
